theory Spec2Isabelle
  imports Complex_Main "HOL-Library.Multiset" "HOL-Library.Product_Lexorder" "HOL-Library.Word"
begin

section \<open>Cells, raw records and data frames\<close>

text \<open>
  A cell of the sheet or of a data frame.  \<open>Str\<close> is a Python string, \<open>Num\<close> a number
  (the value of an integer or of a float, a rational; computing with the cells is left to
  numpy, see the section on machine numbers), \<open>Ts\<close> a parsed timestamp (an integer
  ordinal, as pandas stores it), \<open>NaN\<close> the missing number and \<open>NaT\<close> the missing
  timestamp.
\<close>

datatype val = Str string | Num rat | Ts int | NaN | NaT

text \<open>One record of \<open>sheet.get_all_records()\<close>: a dict from header to cell.\<close>

type_synonym raw_record = "(string \<times> val) list"

text \<open>A data frame: its column labels and its rows, each row read by column label.\<close>

record dataframe =
  columns :: "string list"
  rows :: "(string \<Rightarrow> val) list"

text \<open>Column labels of \<open>pd.DataFrame(list of dicts)\<close>: every key, in order of first appearance.\<close>

fun first_seen :: "string list \<Rightarrow> string list" where
  "first_seen [] = []"
| "first_seen (x # xs) = x # filter (\<lambda>y. y \<noteq> x) (first_seen xs)"

text \<open>A key that a record lacks is filled with \<open>NaN\<close>.\<close>

definition frame_row :: "raw_record \<Rightarrow> string \<Rightarrow> val" where
  "frame_row rec c = (case map_of rec c of Some v \<Rightarrow> v | None \<Rightarrow> NaN)"

definition DataFrame :: "raw_record list \<Rightarrow> dataframe" where
  "DataFrame data =
     \<lparr>columns = first_seen (concat (map (map fst) data)), rows = map frame_row data\<rparr>"

text \<open>\<open>pd.DataFrame()\<close>\<close>

definition empty_frame :: dataframe where
  "empty_frame = \<lparr>columns = [], rows = []\<rparr>"

text \<open>\<open>df.empty\<close>: true when either axis has length 0.\<close>

definition df_empty :: "dataframe \<Rightarrow> bool" where
  "df_empty df \<longleftrightarrow> columns df = [] \<or> rows df = []"

text \<open>\<open>df[c] = df.apply(f, axis=1)\<close> and \<open>df[c] = g(df[c])\<close>: one new value per row.\<close>

definition set_col :: "string \<Rightarrow> ((string \<Rightarrow> val) \<Rightarrow> val) \<Rightarrow> dataframe \<Rightarrow> dataframe" where
  "set_col c f df =
     \<lparr>columns = (if c \<in> set (columns df) then columns df else columns df @ [c]),
      rows = map (\<lambda>r. r(c := f r)) (rows df)\<rparr>"

text \<open>The value of a numeric cell; a cell that holds no number counts as 0.\<close>

definition num_of :: "val \<Rightarrow> rat" where
  "num_of v = (case v of Num x \<Rightarrow> x | _ \<Rightarrow> 0)"

section \<open>Messages shown to the user\<close>

datatype ui_msg =
    Err_fetch string
  | Err_column string
  | Warn_no_amount
  | Success_saved string int
  | Err_save string
  | Info_no_trend

section \<open>The loader \<open>load_data\<close>\<close>

text \<open>
  \<open>pd.to_datetime(..., errors='coerce')\<close> and \<open>pd.to_numeric(..., errors='coerce')\<close>
  belong to pandas.  Their parsers are parameters of the model: \<open>pdate\<close> and \<open>pnum\<close>
  return \<open>None\<close> on a cell they cannot parse, and the coercion turns that into
  \<open>NaT\<close> and \<open>NaN\<close>.
\<close>

definition to_datetime :: "(val \<Rightarrow> int option) \<Rightarrow> val \<Rightarrow> val" where
  "to_datetime pdate v = (case pdate v of Some t \<Rightarrow> Ts t | None \<Rightarrow> NaT)"

definition to_numeric :: "(val \<Rightarrow> rat option) \<Rightarrow> val \<Rightarrow> val" where
  "to_numeric pnum v = (case pnum v of Some x \<Rightarrow> Num x | None \<Rightarrow> NaN)"

definition fillna0 :: "val \<Rightarrow> val" where
  "fillna0 v = (if v = NaN then Num 0 else v)"

definition required_cols :: "string list" where
  "required_cols = [''Tanggal'', ''Tipe Transaksi'', ''Keterangan'', ''Jumlah (Rp)'', ''Gram Emas'']"

text \<open>The loop over \<open>required_cols\<close>: the first required column that the frame lacks.\<close>

fun missing_col :: "string list \<Rightarrow> dataframe \<Rightarrow> string option" where
  "missing_col [] df = None"
| "missing_col (c # cs) df = (if c \<notin> set (columns df) then Some c else missing_col cs df)"

text \<open>\<open>row['Jumlah (Rp)'] if row['Tipe Transaksi'] == t else 0\<close>\<close>

definition bucket :: "string \<Rightarrow> (string \<Rightarrow> val) \<Rightarrow> val" where
  "bucket t row = (if row ''Tipe Transaksi'' = Str t then row ''Jumlah (Rp)'' else Num 0)"

text \<open>The part of \<open>load_data\<close> after the schema check.\<close>

definition clean :: "(val \<Rightarrow> int option) \<Rightarrow> (val \<Rightarrow> rat option) \<Rightarrow> dataframe \<Rightarrow> dataframe" where
  "clean pdate pnum df0 =
     (let df = set_col ''Tanggal'' (\<lambda>r. to_datetime pdate (r ''Tanggal'')) df0;
          df = set_col ''Jumlah (Rp)'' (\<lambda>r. fillna0 (to_numeric pnum (r ''Jumlah (Rp)''))) df;
          df = set_col ''Gram Emas'' (\<lambda>r. fillna0 (to_numeric pnum (r ''Gram Emas''))) df;
          df = set_col ''Pemasukan'' (bucket ''Pemasukan'') df;
          df = set_col ''Pengeluaran'' (bucket ''Pengeluaran Harian'') df;
          df = set_col ''Investasi Saham'' (bucket ''Tabungan Saham'') df;
          df = set_col ''Beli Emas (Rp)'' (bucket ''Beli Emas'') df
      in df)"

text \<open>
  \<open>load_data\<close>.  The argument is what \<open>sheet.get_all_records()\<close> gave: \<open>Inl e\<close> when it
  raised \<open>e\<close>, \<open>Inr data\<close> when it returned the records.  The result is the returned
  frame and the \<open>st.error\<close> messages issued.
\<close>

definition load_data ::
  "(val \<Rightarrow> int option) \<Rightarrow> (val \<Rightarrow> rat option) \<Rightarrow> string + raw_record list
   \<Rightarrow> dataframe \<times> ui_msg list" where
  "load_data pdate pnum fetched =
     (case fetched of
        Inl e \<Rightarrow> (empty_frame, [Err_fetch e])
      | Inr data \<Rightarrow>
          (let df = DataFrame data in
           if df_empty df then (df, [])
           else (case missing_col required_cols df of
                   Some c \<Rightarrow> (empty_frame, [Err_column c])
                 | None \<Rightarrow> (clean pdate pnum df, []))))"

text \<open>
  Row by row, \<open>clean\<close> is this function (lemma \<open>rows_clean\<close> below); it is used only to
  state and prove facts about \<open>clean\<close>.
\<close>

definition clean_row ::
  "(val \<Rightarrow> int option) \<Rightarrow> (val \<Rightarrow> rat option) \<Rightarrow> (string \<Rightarrow> val) \<Rightarrow> string \<Rightarrow> val" where
  "clean_row pdate pnum r =
     (let r = r(''Tanggal'' := to_datetime pdate (r ''Tanggal''));
          r = r(''Jumlah (Rp)'' := fillna0 (to_numeric pnum (r ''Jumlah (Rp)'')));
          r = r(''Gram Emas'' := fillna0 (to_numeric pnum (r ''Gram Emas'')));
          r = r(''Pemasukan'' := bucket ''Pemasukan'' r);
          r = r(''Pengeluaran'' := bucket ''Pengeluaran Harian'' r);
          r = r(''Investasi Saham'' := bucket ''Tabungan Saham'' r);
          r = r(''Beli Emas (Rp)'' := bucket ''Beli Emas'' r)
      in r)"

text \<open>The four transaction types (the options of the form's select box) and the four bucket columns.\<close>

definition transaction_types :: "string list" where
  "transaction_types = [''Pemasukan'', ''Pengeluaran Harian'', ''Tabungan Saham'', ''Beli Emas'']"

definition bucket_cols :: "string list" where
  "bucket_cols = [''Pemasukan'', ''Pengeluaran'', ''Investasi Saham'', ''Beli Emas (Rp)'']"

section \<open>Machine numbers\<close>

text \<open>
  The totals and the running sums of the dashboard are computed by numpy on \<open>int64\<close> and
  \<open>float64\<close> values: additions round or wrap around, and a result may be \<open>inf\<close> or \<open>nan\<close>.
  The model does not fix this arithmetic.  The type \<open>'n\<close> stands for the machine numbers and
  a record of the operations that the code calls is a parameter of every definition that
  computes with numbers:
  \<^item> \<open>np_sum\<close> is \<open>Series.sum()\<close>, from the cells of a column to their total;
  \<^item> \<open>np_cell\<close> is the machine number held in a cell;
  \<^item> \<open>np_sub\<close> and \<open>np_add\<close> are \<open>-\<close> and \<open>+\<close> on machine numbers;
  \<^item> \<open>np_times\<close> is \<open>*\<close> of a machine number and a Python integer.
\<close>

record 'n numpy =
  np_sum :: "val list \<Rightarrow> 'n"
  np_cell :: "val \<Rightarrow> 'n"
  np_sub :: "'n \<Rightarrow> 'n \<Rightarrow> 'n"
  np_add :: "'n \<Rightarrow> 'n \<Rightarrow> 'n"
  np_times :: "'n \<Rightarrow> int \<Rightarrow> 'n"

text \<open>
  Two arithmetics to run the model with.  \<open>exact_numpy\<close> computes without rounding and
  without bound, which is what numpy does as long as every number met is an integer small
  enough to be held exactly; \<open>int64_numpy\<close> is the arithmetic of \<open>int64\<close> columns, which
  wraps around at 64 bits.  In both, \<open>sum\<close> skips the cells that hold no number.
\<close>

definition exact_numpy :: "rat numpy" where
  "exact_numpy =
     \<lparr>np_sum = (\<lambda>cells. sum_list (map num_of cells)), np_cell = num_of,
      np_sub = (\<lambda>x y. x - y), np_add = (\<lambda>x y. x + y), np_times = (\<lambda>x k. x * of_int k)\<rparr>"

definition int64_numpy :: "64 word numpy" where
  "int64_numpy =
     \<lparr>np_sum = (\<lambda>cells. sum_list (map (\<lambda>v. word_of_int \<lfloor>num_of v\<rfloor>) cells)),
      np_cell = (\<lambda>v. word_of_int \<lfloor>num_of v\<rfloor>),
      np_sub = (\<lambda>x y. x - y), np_add = (\<lambda>x y. x + y), np_times = (\<lambda>x k. x * word_of_int k)\<rparr>"

section \<open>Core metrics\<close>

text \<open>\<open>df[c].sum()\<close>\<close>

definition col_sum :: "'n numpy \<Rightarrow> string \<Rightarrow> dataframe \<Rightarrow> 'n" where
  "col_sum np c df = np_sum np (map (\<lambda>r. r c) (rows df))"

record 'n metrics =
  total_pemasukan :: 'n
  total_pengeluaran :: 'n
  total_tabungan_saham :: 'n
  total_gram_emas :: 'n
  saldo_cashflow :: 'n
  total_kekayaan :: 'n

text \<open>
  The block under \<open>if not df.empty\<close>.  For an empty frame the block is skipped: no total
  is computed and no metric is shown, which is the result \<open>None\<close>.
\<close>

definition core_metrics :: "'n numpy \<Rightarrow> dataframe \<Rightarrow> 'n metrics option" where
  "core_metrics np df =
     (if \<not> df_empty df then
        (let tp = col_sum np ''Pemasukan'' df;
             te = col_sum np ''Pengeluaran'' df;
             ts = col_sum np ''Investasi Saham'' df;
             tg = col_sum np ''Gram Emas'' df;
             saldo = np_sub np tp te;
             kekayaan = np_add np (np_add np saldo ts) (np_times np tg 900000)
         in Some \<lparr>total_pemasukan = tp, total_pengeluaran = te, total_tabungan_saham = ts,
                  total_gram_emas = tg, saldo_cashflow = saldo, total_kekayaan = kekayaan\<rparr>)
      else None)"

text \<open>
  The totals as the specification words them, in exact arithmetic: the total of a
  transaction type is the sum of the amounts of the rows of that type, and the estimated
  wealth is income minus expense, plus stock savings, plus the grams of gold at 900000
  per gram.
\<close>

definition spec_total :: "string \<Rightarrow> (string \<Rightarrow> val) list \<Rightarrow> rat" where
  "spec_total t rs =
     sum_list (map (\<lambda>r. num_of (r ''Jumlah (Rp)'')) (filter (\<lambda>r. r ''Tipe Transaksi'' = Str t) rs))"

definition spec_grams :: "(string \<Rightarrow> val) list \<Rightarrow> rat" where
  "spec_grams rs = sum_list (map (\<lambda>r. num_of (r ''Gram Emas'')) rs)"

definition spec_wealth :: "(string \<Rightarrow> val) list \<Rightarrow> rat" where
  "spec_wealth rs =
     (spec_total ''Pemasukan'' rs - spec_total ''Pengeluaran Harian'' rs)
       + spec_total ''Tabungan Saham'' rs + spec_grams rs * 900000"

section \<open>The cumulative trend\<close>
















section \<open>The input form and the append path\<close>

record form_input =
  tanggal :: "nat \<times> nat \<times> nat"
  transaction_type :: string
  jumlah_rp :: int
  gram_input :: rat
  keterangan :: string
  submit :: bool

text \<open>
  \<open>gram_emas = 0\<close>, replaced by the value of the gram number input only when the type is
  \<open>Beli Emas\<close> (\<open>gram_input\<close> is what that widget would return).
\<close>

definition gram_emas :: "form_input \<Rightarrow> rat" where
  "gram_emas f = (if transaction_type f = ''Beli Emas'' then gram_input f else 0)"

text \<open>\<open>tanggal.strftime("%Y-%m-%d")\<close>\<close>

definition digit_char :: "nat \<Rightarrow> char" where
  "digit_char n = ''0123456789'' ! (n mod 10)"

fun pad_digits :: "nat \<Rightarrow> nat \<Rightarrow> string" where
  "pad_digits 0 n = []"
| "pad_digits (Suc w) n = pad_digits w (n div 10) @ [digit_char n]"

definition strftime :: "nat \<times> nat \<times> nat \<Rightarrow> string" where
  "strftime dt = (case dt of (y, m, d) \<Rightarrow> pad_digits 4 y @ ''-'' @ pad_digits 2 m @ ''-'' @ pad_digits 2 d)"

definition row_data :: "form_input \<Rightarrow> val list" where
  "row_data f =
     [Str (strftime (tanggal f)), Str (transaction_type f), Str (keterangan f),
      Num (of_int (jumlah_rp f)), Num (gram_emas f)]"

text \<open>
  What the submit handler can change: the external sheet (of any type \<open>'st\<close>), the cache
  slot of \<open>load_data\<close> (\<open>None\<close> when cleared or expired), the messages shown, the rows that
  were passed to \<open>sheet.append_row\<close>, the number of calls of \<open>load_data.clear()\<close>, and
  whether a rerun of the script was requested.
\<close>

record 'st world =
  sheet :: 'st
  ledger_cache :: "dataframe option"
  shown :: "ui_msg list"
  store_calls :: "val list list"
  cache_clears :: nat
  rerun_requested :: bool

text \<open>
  The block under \<open>if submit\<close>.  \<open>append_row\<close> is the store's operation: it returns the
  sheet as the call left it and \<open>Some e\<close> when it raised \<open>e\<close>.  The rerun is requested by
  an exception that \<open>except Exception\<close> does not catch, so it ends the handler.
\<close>

definition submit_handler ::
  "(val list \<Rightarrow> 'st \<Rightarrow> 'st \<times> string option) \<Rightarrow> form_input \<Rightarrow> 'st world \<Rightarrow> 'st world" where
  "submit_handler append_row f w =
     (if \<not> submit f then w
      else if jumlah_rp f = 0 \<and> gram_emas f = 0 then w\<lparr>shown := shown w @ [Warn_no_amount]\<rparr>
      else (case append_row (row_data f) (sheet w) of
              (sh, Some e) \<Rightarrow>
                w\<lparr>sheet := sh, store_calls := store_calls w @ [row_data f],
                  shown := shown w @ [Err_save e]\<rparr>
            | (sh, None) \<Rightarrow>
                w\<lparr>sheet := sh, store_calls := store_calls w @ [row_data f],
                  shown := shown w @ [Success_saved (transaction_type f) (jumlah_rp f)],
                  ledger_cache := None, cache_clears := Suc (cache_clears w),
                  rerun_requested := True\<rparr>))"

text \<open>
  \<open>load_data\<close> behind \<open>st.cache_data\<close>: a filled slot answers, an empty one calls the
  loader on the sheet and keeps the result.
\<close>

definition cached_load_data :: "('st \<Rightarrow> dataframe) \<Rightarrow> 'st world \<Rightarrow> dataframe \<times> 'st world" where
  "cached_load_data loader w =
     (case ledger_cache w of
        Some df \<Rightarrow> (df, w)
      | None \<Rightarrow> (let df = loader (sheet w) in (df, w\<lparr>ledger_cache := Some df\<rparr>)))"

section \<open>Sample parsers and sample data\<close>

text \<open>
  Stand-ins for the pandas parsers, to run the model on examples: dates written
  \<open>YYYY-MM-DD\<close>, numbers given as numbers or as strings of digits.
\<close>

definition digit_of :: "char \<Rightarrow> nat option" where
  "digit_of ch = map_of [(CHR ''0'', 0), (CHR ''1'', 1), (CHR ''2'', 2), (CHR ''3'', 3), (CHR ''4'', 4),
                         (CHR ''5'', 5), (CHR ''6'', 6), (CHR ''7'', 7), (CHR ''8'', 8), (CHR ''9'', 9)] ch"

fun nat_of_digits :: "nat \<Rightarrow> string \<Rightarrow> nat option" where
  "nat_of_digits acc [] = Some acc"
| "nat_of_digits acc (ch # cs) =
     (case digit_of ch of None \<Rightarrow> None | Some d \<Rightarrow> nat_of_digits (10 * acc + d) cs)"

definition parse_nat :: "string \<Rightarrow> nat option" where
  "parse_nat s = (if s = [] then None else nat_of_digits 0 s)"

definition sample_pdate :: "val \<Rightarrow> int option" where
  "sample_pdate v =
     (case v of
        Str s \<Rightarrow>
          (if length s = 10 \<and> s ! 4 = CHR ''-'' \<and> s ! 7 = CHR ''-'' then
             (case (parse_nat (take 4 s), parse_nat (take 2 (drop 5 s)), parse_nat (drop 8 s)) of
                (Some y, Some m, Some d) \<Rightarrow> Some (int (y * 10000 + m * 100 + d))
              | _ \<Rightarrow> None)
           else None)
      | _ \<Rightarrow> None)"

definition sample_pnum :: "val \<Rightarrow> rat option" where
  "sample_pnum v =
     (case v of Num x \<Rightarrow> Some x | Str s \<Rightarrow> map_option of_nat (parse_nat s) | _ \<Rightarrow> None)"

definition raw_row :: "val \<Rightarrow> val \<Rightarrow> val \<Rightarrow> val \<Rightarrow> val \<Rightarrow> raw_record" where
  "raw_row d t k a g =
     [(''Tanggal'', d), (''Tipe Transaksi'', t), (''Keterangan'', k), (''Jumlah (Rp)'', a), (''Gram Emas'', g)]"

text \<open>
  Two stores for examples, with the sheet as the list of its rows: one whose
  \<open>append_row\<close> succeeds and one whose \<open>append_row\<close> raises.
\<close>

definition append_ok :: "val list \<Rightarrow> val list list \<Rightarrow> val list list \<times> string option" where
  "append_ok row sh = (sh @ [row], None)"

definition append_fails :: "val list \<Rightarrow> val list list \<Rightarrow> val list list \<times> string option" where
  "append_fails row sh = (sh, Some ''APIError'')"

definition sample_world :: "val list list world" where
  "sample_world =
     \<lparr>sheet = [], ledger_cache = Some empty_frame, shown = [], store_calls = [],
      cache_clears = 0, rerun_requested = False\<rparr>"

definition sample_form :: "string \<Rightarrow> int \<Rightarrow> rat \<Rightarrow> form_input" where
  "sample_form t a g =
     \<lparr>tanggal = (2024, 3, 5), transaction_type = t, jumlah_rp = a, gram_input = g,
      keterangan = ''contoh'', submit = True\<rparr>"

text \<open>
  A draft is saved when the handler ran, did not reject the draft, and \<open>append_row\<close>
  returned without raising.
\<close>

definition saved :: "(val list \<Rightarrow> 'st \<Rightarrow> 'st \<times> string option) \<Rightarrow> form_input \<Rightarrow> 'st world \<Rightarrow> bool" where
  "saved append_row f w \<longleftrightarrow>
     submit f \<and> \<not> (jumlah_rp f = 0 \<and> gram_emas f = 0) \<and>
     snd (append_row (row_data f) (sheet w)) = None"

text \<open>The four bucket cells of a row, in the order of \<open>bucket_cols\<close>.\<close>

definition bucket_vals :: "(string \<Rightarrow> val) \<Rightarrow> val list" where
  "bucket_vals r = map r bucket_cols"

text \<open>A sheet with a single salary row: income of 5000000 and no gold.\<close>

definition scenario_A :: "raw_record list" where
  "scenario_A =
     [raw_row (Str ''2024-01-01'') (Str ''Pemasukan'') (Str ''Salary'') (Num 5000000) (Num 0)]"

text \<open>The same sheet without its column \<open>Gram Emas\<close>.\<close>

definition scenario_B :: "raw_record list" where
  "scenario_B =
     [[(''Tanggal'', Str ''2024-01-01''), (''Tipe Transaksi'', Str ''Pemasukan''),
       (''Keterangan'', Str ''Salary''), (''Jumlah (Rp)'', Num 5000000)]]"



section \<open>Facts about frames and the loader\<close>

lemma rows_set_col: "rows (set_col c f df) = map (\<lambda>r. r(c := f r)) (rows df)"
  by (simp add: set_col_def)

lemma rows_clean: "rows (clean pdate pnum df) = map (clean_row pdate pnum) (rows df)"
  by (simp add: clean_def clean_row_def Let_def rows_set_col o_def)

lemma columns_set_col_nonempty: "columns df \<noteq> [] \<Longrightarrow> columns (set_col c f df) \<noteq> []"
  by (simp add: set_col_def)

lemma columns_clean_nonempty: "columns df \<noteq> [] \<Longrightarrow> columns (clean pdate pnum df) \<noteq> []"
  by (simp add: clean_def Let_def columns_set_col_nonempty)

lemma not_df_empty_clean: "\<not> df_empty df \<Longrightarrow> \<not> df_empty (clean pdate pnum df)"
  by (simp add: df_empty_def rows_clean columns_clean_nonempty)

lemma clean_row_fields:
  "clean_row pdate pnum r ''Tanggal'' = to_datetime pdate (r ''Tanggal'')"
  "clean_row pdate pnum r ''Tipe Transaksi'' = r ''Tipe Transaksi''"
  "clean_row pdate pnum r ''Keterangan'' = r ''Keterangan''"
  "clean_row pdate pnum r ''Jumlah (Rp)'' = fillna0 (to_numeric pnum (r ''Jumlah (Rp)''))"
  "clean_row pdate pnum r ''Gram Emas'' = fillna0 (to_numeric pnum (r ''Gram Emas''))"
  by (simp_all add: clean_row_def Let_def)

lemma bucket_upd:
  "c \<noteq> ''Tipe Transaksi'' \<Longrightarrow> c \<noteq> ''Jumlah (Rp)'' \<Longrightarrow> bucket t (r(c := v)) = bucket t r"
  by (simp add: bucket_def)

lemma clean_row_buckets:
  "clean_row pdate pnum r ''Pemasukan'' = bucket ''Pemasukan'' (clean_row pdate pnum r)"
  "clean_row pdate pnum r ''Pengeluaran'' = bucket ''Pengeluaran Harian'' (clean_row pdate pnum r)"
  "clean_row pdate pnum r ''Investasi Saham'' = bucket ''Tabungan Saham'' (clean_row pdate pnum r)"
  "clean_row pdate pnum r ''Beli Emas (Rp)'' = bucket ''Beli Emas'' (clean_row pdate pnum r)"
  by (simp_all add: clean_row_def Let_def bucket_upd)

lemma bucket_vals_clean_row:
  "bucket_vals (clean_row pdate pnum r) =
     (let a = fillna0 (to_numeric pnum (r ''Jumlah (Rp)'')); t = r ''Tipe Transaksi'' in
      [if t = Str ''Pemasukan'' then a else Num 0,
       if t = Str ''Pengeluaran Harian'' then a else Num 0,
       if t = Str ''Tabungan Saham'' then a else Num 0,
       if t = Str ''Beli Emas'' then a else Num 0])"
  by (simp add: bucket_vals_def bucket_cols_def clean_row_buckets bucket_def clean_row_fields Let_def)

lemma coerced_amount_Num: "\<exists>x. fillna0 (to_numeric pnum v) = Num x"
  by (simp add: fillna0_def to_numeric_def split: option.splits)

lemma load_data_Inr:
  "load_data pdate pnum (Inr data) =
     (if df_empty (DataFrame data) then (DataFrame data, [])
      else case missing_col required_cols (DataFrame data) of
             Some c \<Rightarrow> (empty_frame, [Err_column c])
           | None \<Rightarrow> (clean pdate pnum (DataFrame data), []))"
  by (simp add: load_data_def Let_def)

lemma df_empty_empty_frame: "df_empty empty_frame"
  by (simp add: df_empty_def empty_frame_def)

text \<open>A frame that \<open>load_data\<close> returned and that is not empty went through \<open>clean\<close>.\<close>

lemma loaded_nonempty:
  assumes "load_data pdate pnum fetched = (df, msgs)" and "\<not> df_empty df"
  shows "\<exists>data. fetched = Inr data \<and> \<not> df_empty (DataFrame data) \<and>
           missing_col required_cols (DataFrame data) = None \<and>
           df = clean pdate pnum (DataFrame data) \<and> msgs = []"
proof (cases fetched)
  case (Inl e)
  with assms show ?thesis by (simp add: load_data_def df_empty_empty_frame)
next
  case (Inr data)
  with assms show ?thesis
    by (auto simp: load_data_Inr df_empty_empty_frame split: if_splits option.splits)
qed

lemma missing_col_None: "missing_col cs df = None \<longleftrightarrow> set cs \<subseteq> set (columns df)"
  by (induction cs) auto

lemma missing_col_Some: "missing_col cs df = Some c \<Longrightarrow> c \<in> set cs \<and> c \<notin> set (columns df)"
  by (induction cs) (auto split: if_splits)

lemma set_first_seen: "set (first_seen xs) = set xs"
  by (induction xs) auto

lemma columns_DataFrame: "set (columns (DataFrame data)) = (\<Union>rec \<in> set data. fst ` set rec)"
  by (auto simp: DataFrame_def set_first_seen)

lemma df_empty_DataFrame: "df_empty (DataFrame data) \<longleftrightarrow> (\<forall>rec \<in> set data. rec = [])"
proof -
  have "columns (DataFrame data) = [] \<longleftrightarrow> set (columns (DataFrame data)) = {}" by simp
  also have "\<dots> \<longleftrightarrow> (\<forall>rec \<in> set data. rec = [])" unfolding columns_DataFrame by auto
  finally have c: "columns (DataFrame data) = [] \<longleftrightarrow> (\<forall>rec \<in> set data. rec = [])" .
  have r: "rows (DataFrame data) = [] \<longleftrightarrow> data = []" by (simp add: DataFrame_def)
  show ?thesis unfolding df_empty_def c r by auto
qed

section \<open>The loader on empty and on incomplete data\<close>

text \<open>
  C8.  When the sheet returns no records at all, \<open>load_data\<close> returns the frame built from
  them, which is empty and has no rows, and issues no message: neither the message for a
  missing column nor the one for a failed fetch.
\<close>

theorem load_data_no_records:
  "load_data pdate pnum (Inr []) = (DataFrame [], []) \<and> df_empty (DataFrame []) \<and>
   rows (fst (load_data pdate pnum (Inr []))) = [] \<and>
   snd (load_data pdate pnum (Inr [])) = [] \<and>
   (\<forall>c. snd (load_data pdate pnum (Inr [])) \<noteq> [Err_column c]) \<and>
   (\<forall>e. snd (load_data pdate pnum (Inr [])) \<noteq> [Err_fetch e])"
  by (simp add: load_data_Inr df_empty_def DataFrame_def)

text \<open>
  C4, as stated, fails: a record list that is not empty but whose records have no field
  gives a frame with rows and no column, \<open>df.empty\<close> holds, and \<open>load_data\<close> returns at the
  guard \<open>if df.empty\<close> before the columns are checked.  The column \<open>Gram Emas\<close> is absent
  and no message is issued.
\<close>

theorem load_data_no_fields_counterexample:
  "[[]] \<noteq> ([] :: raw_record list) \<and>
   ''Gram Emas'' \<in> set required_cols \<and>
   ''Gram Emas'' \<notin> set (columns (DataFrame [[]])) \<and>
   snd (load_data sample_pdate sample_pnum (Inr [[]])) = []"
  by (simp add: load_data_Inr df_empty_def DataFrame_def required_cols_def)

text \<open>
  C4, amended.  For every record list:
  \<^item> when some record has a field (the frame is not empty) and a required column \<open>c\<close>
    occurs in no record, \<open>load_data\<close> returns the fresh empty frame and exactly one
    message, which names a required column that is absent; the result is the same whatever
    the parsers are, so no cell was parsed;
  \<^item> when no record has a field, be the list empty or not, the frame built from the records
    has one row per record and no column, \<open>df.empty\<close> holds and \<open>load_data\<close> returns that
    frame at the guard with no message, although every required column is absent.
\<close>

theorem load_data_missing_column:
  "((\<exists>rec \<in> set data. rec \<noteq> []) \<and> c \<in> set required_cols \<and> (\<forall>rec \<in> set data. c \<notin> fst ` set rec)
      \<longrightarrow> (\<exists>c' \<in> set required_cols. c' \<notin> set (columns (DataFrame data)) \<and>
             (\<forall>pdate pnum. load_data pdate pnum (Inr data) = (empty_frame, [Err_column c'])))) \<and>
   ((\<forall>rec \<in> set data. rec = [])
      \<longrightarrow> (\<forall>pdate pnum. load_data pdate pnum (Inr data) = (DataFrame data, [])) \<and>
          df_empty (DataFrame data) \<and> columns (DataFrame data) = [] \<and>
          length (rows (DataFrame data)) = length data) \<and>
   df_empty empty_frame \<and> rows empty_frame = []"
proof (intro conjI impI)
  assume a: "(\<exists>rec \<in> set data. rec \<noteq> []) \<and> c \<in> set required_cols \<and>
             (\<forall>rec \<in> set data. c \<notin> fst ` set rec)"
  have ne: "\<not> df_empty (DataFrame data)" using a by (simp add: df_empty_DataFrame)
  have "c \<notin> set (columns (DataFrame data))" using a by (simp add: columns_DataFrame)
  with a have "missing_col required_cols (DataFrame data) \<noteq> None"
    by (auto simp: missing_col_None)
  then obtain c' where m: "missing_col required_cols (DataFrame data) = Some c'" by auto
  from missing_col_Some [OF m] ne m
  show "\<exists>c' \<in> set required_cols. c' \<notin> set (columns (DataFrame data)) \<and>
           (\<forall>pdate pnum. load_data pdate pnum (Inr data) = (empty_frame, [Err_column c']))"
    by (auto simp: load_data_Inr)
next
  assume b: "\<forall>rec \<in> set data. rec = []"
  then show e: "df_empty (DataFrame data)" by (simp add: df_empty_DataFrame)
  then show "\<forall>pdate pnum. load_data pdate pnum (Inr data) = (DataFrame data, [])"
    by (simp add: load_data_Inr)
  have "set (columns (DataFrame data)) = {}" using b by (simp add: columns_DataFrame)
  then show "columns (DataFrame data) = []" by simp
next
  show "length (rows (DataFrame data)) = length data" by (simp add: DataFrame_def)
  show "df_empty empty_frame" by (rule df_empty_empty_frame)
  show "rows empty_frame = []" by (simp add: empty_frame_def)
qed

theorem load_data_missing_column_witness:
  "[(''Tanggal'', Str ''2024-01-01''), (''Tipe Transaksi'', Str ''Pemasukan''),
    (''Keterangan'', Str ''Gaji''), (''Jumlah (Rp)'', Num 5000000)] \<noteq> [] \<and>
   ''Gram Emas'' \<in> set required_cols \<and>
   ''Gram Emas'' \<notin> fst ` set [(''Tanggal'', Str ''2024-01-01''), (''Tipe Transaksi'', Str ''Pemasukan''),
                                (''Keterangan'', Str ''Gaji''), (''Jumlah (Rp)'', Num 5000000)] \<and>
   (\<exists>c' \<in> set required_cols.
      load_data sample_pdate sample_pnum
        (Inr [[(''Tanggal'', Str ''2024-01-01''), (''Tipe Transaksi'', Str ''Pemasukan''),
               (''Keterangan'', Str ''Gaji''), (''Jumlah (Rp)'', Num 5000000)]])
      = (empty_frame, [Err_column c'])) \<and>
   load_data sample_pdate sample_pnum (Inr [[], []]) = (DataFrame [[], []], []) \<and>
   df_empty (DataFrame [[], []]) \<and>
   length (rows (DataFrame [[], []])) = 2"
proof -
  let ?D = "[[(''Tanggal'', Str ''2024-01-01''), (''Tipe Transaksi'', Str ''Pemasukan''),
              (''Keterangan'', Str ''Gaji''), (''Jumlah (Rp)'', Num (5000000::rat))]]"
  let ?E = "[[], []] :: raw_record list"
  have h1: "\<exists>rec \<in> set ?D. rec \<noteq> []" by simp
  have h2: "''Gram Emas'' \<in> set required_cols" by (simp add: required_cols_def)
  have h3: "\<forall>rec \<in> set ?D. ''Gram Emas'' \<notin> fst ` set rec" by simp
  from load_data_missing_column [of ?D "''Gram Emas''"] h1 h2 h3 have
    "\<exists>c' \<in> set required_cols.
       load_data sample_pdate sample_pnum (Inr ?D) = (empty_frame, [Err_column c'])"
    by blast
  moreover have h4: "\<forall>rec \<in> set ?E. rec = []" by simp
  from load_data_missing_column [of ?E "''Gram Emas''"] h4 have
    "load_data sample_pdate sample_pnum (Inr ?E) = (DataFrame ?E, []) \<and>
     df_empty (DataFrame ?E) \<and> length (rows (DataFrame ?E)) = 2"
    by simp
  ultimately show ?thesis using h2 h3 by simp
qed

lemma load_data_complete:
  assumes "\<exists>rec \<in> set data. rec \<noteq> []"
    and "set required_cols \<subseteq> (\<Union>rec \<in> set data. fst ` set rec)"
  shows "load_data pdate pnum (Inr data) = (clean pdate pnum (DataFrame data), [])"
proof -
  have "\<not> df_empty (DataFrame data)" using assms(1) by (simp add: df_empty_DataFrame)
  moreover have "missing_col required_cols (DataFrame data) = None"
    using assms(2) by (simp add: missing_col_None columns_DataFrame)
  ultimately show ?thesis by (simp add: load_data_Inr)
qed

lemma fillna0_to_numeric:
  "fillna0 (to_numeric pnum v) = (case pnum v of None \<Rightarrow> Num 0 | Some x \<Rightarrow> Num x)"
  by (simp add: fillna0_def to_numeric_def split: option.splits)

lemma sample_rows_complete:
  "set required_cols \<subseteq> (\<Union>rec \<in> set (raw_row d t k a g # rest). fst ` set rec)"
  by (simp add: required_cols_def raw_row_def)

lemma load_data_sample_row:
  "load_data pdate pnum (Inr (raw_row d t k a g # rest))
     = (clean pdate pnum (DataFrame (raw_row d t k a g # rest)), [])"
proof (rule load_data_complete)
  show "\<exists>rec \<in> set (raw_row d t k a g # rest). rec \<noteq> []" by (simp add: raw_row_def)
  show "set required_cols \<subseteq> (\<Union>rec \<in> set (raw_row d t k a g # rest). fst ` set rec)"
    by (rule sample_rows_complete)
qed

lemma frame_row_raw_row:
  "frame_row (raw_row d t k a g) ''Tanggal'' = d"
  "frame_row (raw_row d t k a g) ''Tipe Transaksi'' = t"
  "frame_row (raw_row d t k a g) ''Keterangan'' = k"
  "frame_row (raw_row d t k a g) ''Jumlah (Rp)'' = a"
  "frame_row (raw_row d t k a g) ''Gram Emas'' = g"
  by (simp_all add: frame_row_def raw_row_def)

lemma rows_DataFrame: "rows (DataFrame data) = map frame_row data"
  by (simp add: DataFrame_def)

lemma columns_DataFrame_raw_row: "columns (DataFrame (raw_row d t k a g # rest)) \<noteq> []"
  by (simp add: DataFrame_def raw_row_def)

lemma sample_frame_not_empty:
  "\<not> df_empty (clean pdate pnum (DataFrame (raw_row d t k a g # rest)))"
  by (rule not_df_empty_clean) (simp add: df_empty_def columns_DataFrame_raw_row rows_DataFrame)

lemma loaded_row:
  assumes "load_data pdate pnum fetched = (df, msgs)" and "\<not> df_empty df" and "r \<in> set (rows df)"
  shows "\<exists>r0. r = clean_row pdate pnum r0"
proof -
  from loaded_nonempty [OF assms(1,2)] obtain data where "df = clean pdate pnum (DataFrame data)"
    by blast
  with assms(3) show ?thesis by (auto simp: rows_clean)
qed

lemma bucket_vals_loaded:
  assumes "load_data pdate pnum fetched = (df, msgs)" and "\<not> df_empty df" and "r \<in> set (rows df)"
  shows "bucket_vals r =
           map (\<lambda>t. if r ''Tipe Transaksi'' = Str t then r ''Jumlah (Rp)'' else Num 0) transaction_types"
proof -
  from loaded_row [OF assms] obtain r0 where "r = clean_row pdate pnum r0" ..
  then show ?thesis
    by (simp add: bucket_vals_clean_row transaction_types_def clean_row_fields Let_def)
qed

section \<open>Coercion of cells\<close>

text \<open>
  C3.  When the records have the five required columns, \<open>load_data\<close> issues no message and
  returns one row per record, in the order of the records.  In row \<open>i\<close> the date is the
  parsed date of record \<open>i\<close>, or \<open>NaT\<close> when the parser fails on it; the amount and the
  grams are the parsed numbers, or \<open>0\<close> when the parser fails; type and description are
  kept as they are.  This holds for every parser, so a cell that does not parse neither
  removes a row nor produces an error.
\<close>

theorem load_data_coerces:
  assumes "\<exists>rec \<in> set data. rec \<noteq> []"
    and "set required_cols \<subseteq> (\<Union>rec \<in> set data. fst ` set rec)"
  shows "snd (load_data pdate pnum (Inr data)) = [] \<and>
         length (rows (fst (load_data pdate pnum (Inr data)))) = length data \<and>
         (\<forall>i < length data.
            let raw = frame_row (data ! i); r = rows (fst (load_data pdate pnum (Inr data))) ! i in
              r ''Tanggal'' = (case pdate (raw ''Tanggal'') of None \<Rightarrow> NaT | Some t \<Rightarrow> Ts t) \<and>
              r ''Jumlah (Rp)'' = (case pnum (raw ''Jumlah (Rp)'') of None \<Rightarrow> Num 0 | Some x \<Rightarrow> Num x) \<and>
              r ''Gram Emas'' = (case pnum (raw ''Gram Emas'') of None \<Rightarrow> Num 0 | Some x \<Rightarrow> Num x) \<and>
              r ''Tipe Transaksi'' = raw ''Tipe Transaksi'' \<and>
              r ''Keterangan'' = raw ''Keterangan'')"
proof -
  have l: "load_data pdate pnum (Inr data) = (clean pdate pnum (DataFrame data), [])"
    using assms by (rule load_data_complete)
  have r: "rows (clean pdate pnum (DataFrame data)) = map (clean_row pdate pnum) (map frame_row data)"
    by (simp add: rows_clean DataFrame_def)
  show ?thesis
    unfolding l
    by (simp add: r Let_def clean_row_fields fillna0_to_numeric to_datetime_def)
qed

theorem load_data_coerces_witness:
  "raw_row (Str ''kemarin'') (Str ''Pemasukan'') (Str ''Gaji'') (Str ''abc'') (Str '''') \<noteq> [] \<and>
   sample_pdate (Str ''kemarin'') = None \<and> sample_pnum (Str ''abc'') = None \<and>
   sample_pnum (Str '''') = None \<and>
   snd (load_data sample_pdate sample_pnum
          (Inr [raw_row (Str ''kemarin'') (Str ''Pemasukan'') (Str ''Gaji'') (Str ''abc'') (Str '''')])) = [] \<and>
   map (\<lambda>r. (r ''Tanggal'', r ''Jumlah (Rp)'', r ''Gram Emas'', r ''Tipe Transaksi''))
     (rows (fst (load_data sample_pdate sample_pnum
          (Inr [raw_row (Str ''kemarin'') (Str ''Pemasukan'') (Str ''Gaji'') (Str ''abc'') (Str '''')]))))
   = [(NaT, Num 0, Num 0, Str ''Pemasukan'')]"
proof -
  let ?rec = "raw_row (Str ''kemarin'') (Str ''Pemasukan'') (Str ''Gaji'') (Str ''abc'') (Str '''')"
  let ?L = "load_data sample_pdate sample_pnum (Inr [?rec])"
  have h1: "\<exists>rec \<in> set [?rec]. rec \<noteq> []" by (simp add: raw_row_def)
  have h2: "set required_cols \<subseteq> (\<Union>rec \<in> set [?rec]. fst ` set rec)"
    by (rule sample_rows_complete)
  have p1: "sample_pdate (Str ''kemarin'') = None" by (simp add: sample_pdate_def)
  have p2: "sample_pnum (Str ''abc'') = None"
    by (simp add: sample_pnum_def parse_nat_def digit_of_def)
  have p3: "sample_pnum (Str '''') = None" by (simp add: sample_pnum_def parse_nat_def)
  from load_data_coerces [OF h1 h2, of sample_pdate sample_pnum]
  have s: "snd ?L = []" and n: "length (rows (fst ?L)) = 1"
    and c: "(rows (fst ?L) ! 0) ''Tanggal'' = NaT \<and> (rows (fst ?L) ! 0) ''Jumlah (Rp)'' = Num 0 \<and>
            (rows (fst ?L) ! 0) ''Gram Emas'' = Num 0 \<and> (rows (fst ?L) ! 0) ''Tipe Transaksi'' = Str ''Pemasukan''"
    by (simp_all add: Let_def frame_row_raw_row p1 p2 p3)
  from n obtain r where rr: "rows (fst ?L) = [r]" by (cases "rows (fst ?L)") auto
  with c have "map (\<lambda>r. (r ''Tanggal'', r ''Jumlah (Rp)'', r ''Gram Emas'', r ''Tipe Transaksi'')) (rows (fst ?L))
      = [(NaT, Num 0, Num 0, Str ''Pemasukan'')]" by simp
  with s p1 p2 p3 show ?thesis by (simp add: raw_row_def)
qed

section \<open>The four buckets of a row\<close>

text \<open>
  C1, as stated, fails: a purchase of gold recorded with its grams and an amount of \<open>0\<close>
  (the form accepts it) has the type \<open>Beli Emas\<close>, one of the four, and all four buckets
  are \<open>0\<close>, since each bucket is the amount or \<open>0\<close>.
\<close>

theorem bucket_exactly_one_counterexample:
  "''Beli Emas'' \<in> set transaction_types \<and>
   map (\<lambda>r. (r ''Tipe Transaksi'', bucket_vals r))
     (rows (fst (load_data sample_pdate sample_pnum
        (Inr [raw_row (Str ''2024-03-05'') (Str ''Beli Emas'') (Str ''Emas 1 gram'') (Num 0) (Num 1)]))))
   = [(Str ''Beli Emas'', [Num 0, Num 0, Num 0, Num 0])]"
  by (simp add: load_data_sample_row rows_clean rows_DataFrame bucket_vals_clean_row
        clean_row_fields frame_row_raw_row fillna0_to_numeric sample_pnum_def
        transaction_types_def Let_def)

text \<open>
  C1, amended.  In every row of a loaded frame: when the type is one of the four and the
  coerced amount is not \<open>0\<close>, exactly one of the four buckets is not \<open>0\<close>; when the type
  is none of the four, or the coerced amount is \<open>0\<close>, all four buckets are \<open>0\<close>.
\<close>

theorem bucket_exactly_one_when_amount_nonzero:
  assumes "load_data pdate pnum fetched = (df, msgs)" and "\<not> df_empty df" and "r \<in> set (rows df)"
  shows "(r ''Tipe Transaksi'' \<in> Str ` set transaction_types \<and> r ''Jumlah (Rp)'' \<noteq> Num 0 \<longrightarrow>
            length (filter (\<lambda>v. v \<noteq> Num 0) (bucket_vals r)) = 1) \<and>
         (r ''Tipe Transaksi'' \<notin> Str ` set transaction_types \<or> r ''Jumlah (Rp)'' = Num 0 \<longrightarrow>
            (\<forall>v \<in> set (bucket_vals r). v = Num 0))"
  unfolding bucket_vals_loaded [OF assms]
  by (auto simp: transaction_types_def)

theorem bucket_exactly_one_when_amount_nonzero_witness:
  "load_data sample_pdate sample_pnum
      (Inr [raw_row (Str ''2024-01-01'') (Str ''Pemasukan'') (Str ''Gaji'') (Num 5000000) (Num 0)])
    = (clean sample_pdate sample_pnum
         (DataFrame [raw_row (Str ''2024-01-01'') (Str ''Pemasukan'') (Str ''Gaji'') (Num 5000000) (Num 0)]), []) \<and>
   \<not> df_empty (clean sample_pdate sample_pnum
         (DataFrame [raw_row (Str ''2024-01-01'') (Str ''Pemasukan'') (Str ''Gaji'') (Num 5000000) (Num 0)])) \<and>
   clean_row sample_pdate sample_pnum
       (frame_row (raw_row (Str ''2024-01-01'') (Str ''Pemasukan'') (Str ''Gaji'') (Num 5000000) (Num 0)))
     \<in> set (rows (clean sample_pdate sample_pnum
         (DataFrame [raw_row (Str ''2024-01-01'') (Str ''Pemasukan'') (Str ''Gaji'') (Num 5000000) (Num 0)]))) \<and>
   length (filter (\<lambda>v. v \<noteq> Num 0)
     (bucket_vals (clean_row sample_pdate sample_pnum
       (frame_row (raw_row (Str ''2024-01-01'') (Str ''Pemasukan'') (Str ''Gaji'') (Num 5000000) (Num 0)))))) = 1"
proof -
  let ?rec = "raw_row (Str ''2024-01-01'') (Str ''Pemasukan'') (Str ''Gaji'') (Num 5000000) (Num 0)"
  let ?df = "clean sample_pdate sample_pnum (DataFrame [?rec])"
  let ?r = "clean_row sample_pdate sample_pnum (frame_row ?rec)"
  have h1: "load_data sample_pdate sample_pnum (Inr [?rec]) = (?df, [])"
    by (rule load_data_sample_row)
  have h2: "\<not> df_empty ?df" by (rule sample_frame_not_empty)
  have h3: "?r \<in> set (rows ?df)" by (simp add: rows_clean rows_DataFrame)
  have t: "?r ''Tipe Transaksi'' \<in> Str ` set transaction_types"
    by (simp add: clean_row_fields frame_row_raw_row transaction_types_def)
  have a: "?r ''Jumlah (Rp)'' \<noteq> Num 0"
    by (simp add: clean_row_fields frame_row_raw_row fillna0_to_numeric sample_pnum_def)
  from bucket_exactly_one_when_amount_nonzero [OF h1 h2 h3] t a
  have "length (filter (\<lambda>v. v \<noteq> Num 0) (bucket_vals ?r)) = 1" by blast
  with h1 h2 h3 show ?thesis by blast
qed

text \<open>
  C9.  In every row of a loaded frame, each of the four buckets is \<open>0\<close> or the row's
  coerced amount, at most one bucket is not \<open>0\<close>, and when the coerced amount is \<open>0\<close>
  all four buckets are \<open>0\<close>, whatever the type; the coerced amount is a number.
\<close>

theorem bucket_zero_or_amount:
  assumes "load_data pdate pnum fetched = (df, msgs)" and "\<not> df_empty df" and "r \<in> set (rows df)"
  shows "(\<forall>v \<in> set (bucket_vals r). v = Num 0 \<or> v = r ''Jumlah (Rp)'') \<and>
         length (filter (\<lambda>v. v \<noteq> Num 0) (bucket_vals r)) \<le> 1 \<and>
         (r ''Jumlah (Rp)'' = Num 0 \<longrightarrow> (\<forall>v \<in> set (bucket_vals r). v = Num 0)) \<and>
         (\<exists>x. r ''Jumlah (Rp)'' = Num x)"
proof -
  from loaded_row [OF assms] obtain r0 where "r = clean_row pdate pnum r0" ..
  then have "\<exists>x. r ''Jumlah (Rp)'' = Num x"
    by (simp add: clean_row_fields coerced_amount_Num)
  moreover have "(\<forall>v \<in> set (bucket_vals r). v = Num 0 \<or> v = r ''Jumlah (Rp)'') \<and>
         length (filter (\<lambda>v. v \<noteq> Num 0) (bucket_vals r)) \<le> 1 \<and>
         (r ''Jumlah (Rp)'' = Num 0 \<longrightarrow> (\<forall>v \<in> set (bucket_vals r). v = Num 0))"
    unfolding bucket_vals_loaded [OF assms]
    by (auto simp: transaction_types_def)
  ultimately show ?thesis by blast
qed

theorem bucket_zero_or_amount_witness:
  "load_data sample_pdate sample_pnum
      (Inr [raw_row (Str ''2024-02-01'') (Str ''Pengeluaran Harian'') (Str ''Listrik'') (Num 0) (Num 0)])
    = (clean sample_pdate sample_pnum
         (DataFrame [raw_row (Str ''2024-02-01'') (Str ''Pengeluaran Harian'') (Str ''Listrik'') (Num 0) (Num 0)]), []) \<and>
   \<not> df_empty (clean sample_pdate sample_pnum
         (DataFrame [raw_row (Str ''2024-02-01'') (Str ''Pengeluaran Harian'') (Str ''Listrik'') (Num 0) (Num 0)])) \<and>
   clean_row sample_pdate sample_pnum
       (frame_row (raw_row (Str ''2024-02-01'') (Str ''Pengeluaran Harian'') (Str ''Listrik'') (Num 0) (Num 0)))
     \<in> set (rows (clean sample_pdate sample_pnum
         (DataFrame [raw_row (Str ''2024-02-01'') (Str ''Pengeluaran Harian'') (Str ''Listrik'') (Num 0) (Num 0)]))) \<and>
   clean_row sample_pdate sample_pnum
       (frame_row (raw_row (Str ''2024-02-01'') (Str ''Pengeluaran Harian'') (Str ''Listrik'') (Num 0) (Num 0)))
       ''Jumlah (Rp)'' = Num 0 \<and>
   bucket_vals (clean_row sample_pdate sample_pnum
       (frame_row (raw_row (Str ''2024-02-01'') (Str ''Pengeluaran Harian'') (Str ''Listrik'') (Num 0) (Num 0))))
     = [Num 0, Num 0, Num 0, Num 0]"
proof -
  let ?rec = "raw_row (Str ''2024-02-01'') (Str ''Pengeluaran Harian'') (Str ''Listrik'') (Num 0) (Num 0)"
  let ?df = "clean sample_pdate sample_pnum (DataFrame [?rec])"
  let ?r = "clean_row sample_pdate sample_pnum (frame_row ?rec)"
  have h1: "load_data sample_pdate sample_pnum (Inr [?rec]) = (?df, [])"
    by (rule load_data_sample_row)
  have h2: "\<not> df_empty ?df" by (rule sample_frame_not_empty)
  have h3: "?r \<in> set (rows ?df)" by (simp add: rows_clean rows_DataFrame)
  have a: "?r ''Jumlah (Rp)'' = Num 0"
    by (simp add: clean_row_fields frame_row_raw_row fillna0_to_numeric sample_pnum_def)
  from bucket_zero_or_amount [OF h1 h2 h3] a
  have z: "\<forall>v \<in> set (bucket_vals ?r). v = Num 0" by blast
  have "length (bucket_vals ?r) = 4" by (simp add: bucket_vals_def bucket_cols_def)
  then obtain v1 v2 v3 v4 where b: "bucket_vals ?r = [v1, v2, v3, v4]"
    by (auto simp: length_Suc_conv numeral_eq_Suc)
  with z have "bucket_vals ?r = [Num 0, Num 0, Num 0, Num 0]" by simp
  with h1 h2 h3 a show ?thesis by blast
qed

section \<open>The append path\<close>

lemma submit_handler_rejected:
  "submit f \<Longrightarrow> jumlah_rp f = 0 \<Longrightarrow> gram_emas f = 0 \<Longrightarrow>
     submit_handler append_row f w = w\<lparr>shown := shown w @ [Warn_no_amount]\<rparr>"
  by (simp add: submit_handler_def)

lemma submit_handler_failed:
  "submit f \<Longrightarrow> \<not> (jumlah_rp f = 0 \<and> gram_emas f = 0) \<Longrightarrow>
   append_row (row_data f) (sheet w) = (sh, Some e) \<Longrightarrow>
     submit_handler append_row f w =
       w\<lparr>sheet := sh, store_calls := store_calls w @ [row_data f], shown := shown w @ [Err_save e]\<rparr>"
  by (auto simp: submit_handler_def)

lemma submit_handler_saved:
  "submit f \<Longrightarrow> \<not> (jumlah_rp f = 0 \<and> gram_emas f = 0) \<Longrightarrow>
   append_row (row_data f) (sheet w) = (sh, None) \<Longrightarrow>
     submit_handler append_row f w =
       w\<lparr>sheet := sh, store_calls := store_calls w @ [row_data f],
         shown := shown w @ [Success_saved (transaction_type f) (jumlah_rp f)],
         ledger_cache := None, cache_clears := Suc (cache_clears w), rerun_requested := True\<rparr>"
  by (auto simp: submit_handler_def)

text \<open>
  C5.  When the form is submitted with \<open>jumlah_rp = 0\<close> and \<open>gram_emas = 0\<close>, the handler
  only shows the warning: \<open>append_row\<close> is not called, and the sheet, the cache slot of
  \<open>load_data\<close>, the count of cache clears and the rerun flag are unchanged.  When
  \<open>jumlah_rp\<close> or \<open>gram_emas\<close> is not \<open>0\<close>, the draft is not rejected: \<open>append_row\<close> is
  called once with the row of the draft, and the message shown is not the warning.
\<close>
theorem submit_rejects_zero_draft:
  assumes "submit f"
  shows "(jumlah_rp f = 0 \<and> gram_emas f = 0 \<longrightarrow>
            store_calls (submit_handler append_row f w) = store_calls w \<and>
            sheet (submit_handler append_row f w) = sheet w \<and>
            ledger_cache (submit_handler append_row f w) = ledger_cache w \<and>
            cache_clears (submit_handler append_row f w) = cache_clears w \<and>
            rerun_requested (submit_handler append_row f w) = rerun_requested w \<and>
            shown (submit_handler append_row f w) = shown w @ [Warn_no_amount]) \<and>
         (jumlah_rp f \<noteq> 0 \<or> gram_emas f \<noteq> 0 \<longrightarrow>
            store_calls (submit_handler append_row f w) = store_calls w @ [row_data f] \<and>
            sheet (submit_handler append_row f w) = fst (append_row (row_data f) (sheet w)) \<and>
            (\<exists>m. shown (submit_handler append_row f w) = shown w @ [m] \<and> m \<noteq> Warn_no_amount))"
proof (intro conjI impI)
  assume z: "jumlah_rp f = 0 \<and> gram_emas f = 0"
  then have e: "submit_handler append_row f w = w\<lparr>shown := shown w @ [Warn_no_amount]\<rparr>"
    using assms by (simp add: submit_handler_rejected)
  show "store_calls (submit_handler append_row f w) = store_calls w"
    "sheet (submit_handler append_row f w) = sheet w"
    "ledger_cache (submit_handler append_row f w) = ledger_cache w"
    "cache_clears (submit_handler append_row f w) = cache_clears w"
    "rerun_requested (submit_handler append_row f w) = rerun_requested w"
    "shown (submit_handler append_row f w) = shown w @ [Warn_no_amount]"
    by (simp_all add: e)
next
  assume nz: "jumlah_rp f \<noteq> 0 \<or> gram_emas f \<noteq> 0"
  then have nz': "\<not> (jumlah_rp f = 0 \<and> gram_emas f = 0)" by blast
  obtain sh r where a: "append_row (row_data f) (sheet w) = (sh, r)"
    by (cases "append_row (row_data f) (sheet w)")
  show "store_calls (submit_handler append_row f w) = store_calls w @ [row_data f]"
    using assms nz' a by (cases r) (simp_all add: submit_handler_failed submit_handler_saved)
  show "sheet (submit_handler append_row f w) = fst (append_row (row_data f) (sheet w))"
    using assms nz' a by (cases r) (simp_all add: submit_handler_failed submit_handler_saved)
  show "\<exists>m. shown (submit_handler append_row f w) = shown w @ [m] \<and> m \<noteq> Warn_no_amount"
    using assms nz' a by (cases r) (simp_all add: submit_handler_failed submit_handler_saved)
qed

theorem submit_rejects_zero_draft_witness:
  "submit (sample_form ''Pemasukan'' 0 0) \<and> jumlah_rp (sample_form ''Pemasukan'' 0 0) = 0 \<and>
   gram_emas (sample_form ''Pemasukan'' 0 0) = 0 \<and>
   store_calls (submit_handler append_ok (sample_form ''Pemasukan'' 0 0) sample_world) = [] \<and>
   sheet (submit_handler append_ok (sample_form ''Pemasukan'' 0 0) sample_world) = [] \<and>
   ledger_cache (submit_handler append_ok (sample_form ''Pemasukan'' 0 0) sample_world) = Some empty_frame \<and>
   shown (submit_handler append_ok (sample_form ''Pemasukan'' 0 0) sample_world) = [Warn_no_amount] \<and>
   submit (sample_form ''Pemasukan'' 1000 0) \<and> jumlah_rp (sample_form ''Pemasukan'' 1000 0) \<noteq> 0 \<and>
   store_calls (submit_handler append_ok (sample_form ''Pemasukan'' 1000 0) sample_world)
     = [row_data (sample_form ''Pemasukan'' 1000 0)]"
proof -
  have s0: "submit (sample_form ''Pemasukan'' 0 0)" and s1: "submit (sample_form ''Pemasukan'' 1000 0)"
    by (simp_all add: sample_form_def)
  have z: "jumlah_rp (sample_form ''Pemasukan'' 0 0) = 0 \<and> gram_emas (sample_form ''Pemasukan'' 0 0) = 0"
    by (simp add: sample_form_def gram_emas_def)
  have nz: "jumlah_rp (sample_form ''Pemasukan'' 1000 0) \<noteq> 0" by (simp add: sample_form_def)
  have w: "store_calls sample_world = []" "sheet sample_world = []" "shown sample_world = []"
    "ledger_cache sample_world = Some empty_frame"
    by (simp_all add: sample_world_def)
  from submit_rejects_zero_draft [OF s0, of append_ok sample_world] z w
  have a: "store_calls (submit_handler append_ok (sample_form ''Pemasukan'' 0 0) sample_world) = [] \<and>
   sheet (submit_handler append_ok (sample_form ''Pemasukan'' 0 0) sample_world) = [] \<and>
   ledger_cache (submit_handler append_ok (sample_form ''Pemasukan'' 0 0) sample_world) = Some empty_frame \<and>
   shown (submit_handler append_ok (sample_form ''Pemasukan'' 0 0) sample_world) = [Warn_no_amount]"
    by simp
  from submit_rejects_zero_draft [OF s1, of append_ok sample_world] nz w
  have b: "store_calls (submit_handler append_ok (sample_form ''Pemasukan'' 1000 0) sample_world)
     = [row_data (sample_form ''Pemasukan'' 1000 0)]" by simp
  from s0 s1 z nz a b show ?thesis by blast
qed


lemma cached_load_data_cleared:
  "ledger_cache w = None \<Longrightarrow> fst (cached_load_data loader w) = loader (sheet w)"
  by (simp add: cached_load_data_def Let_def)

lemma submit_handler_idle: "\<not> submit f \<Longrightarrow> submit_handler append_row f w = w"
  by (simp add: submit_handler_def)

lemma not_saved_cases:
  assumes "\<not> saved append_row f w"
  shows "\<not> submit f \<or> (submit f \<and> jumlah_rp f = 0 \<and> gram_emas f = 0) \<or>
         (submit f \<and> \<not> (jumlah_rp f = 0 \<and> gram_emas f = 0) \<and>
          (\<exists>sh e. append_row (row_data f) (sheet w) = (sh, Some e)))"
proof -
  obtain sh r where a: "append_row (row_data f) (sheet w) = (sh, r)"
    by (cases "append_row (row_data f) (sheet w)")
  show ?thesis using assms a by (cases r) (auto simp: saved_def)
qed

lemma not_saved_keeps_cache:
  assumes "\<not> saved append_row f w"
  shows "ledger_cache (submit_handler append_row f w) = ledger_cache w \<and>
         cache_clears (submit_handler append_row f w) = cache_clears w \<and>
         rerun_requested (submit_handler append_row f w) = rerun_requested w"
proof -
  consider (idle) "\<not> submit f"
    | (rejected) "submit f" "jumlah_rp f = 0" "gram_emas f = 0"
    | (failed) sh e where "submit f" "\<not> (jumlah_rp f = 0 \<and> gram_emas f = 0)"
        "append_row (row_data f) (sheet w) = (sh, Some e)"
    using not_saved_cases [OF assms] by blast
  then show ?thesis
  proof cases
    case idle
    then show ?thesis by (simp add: submit_handler_idle)
  next
    case rejected
    then show ?thesis by (simp add: submit_handler_rejected)
  next
    case failed
    then show ?thesis by (simp add: submit_handler_failed)
  qed
qed

lemma saved_clears_cache:
  assumes "saved append_row f w"
  shows "submit_handler append_row f w =
       w\<lparr>sheet := fst (append_row (row_data f) (sheet w)),
         store_calls := store_calls w @ [row_data f],
         shown := shown w @ [Success_saved (transaction_type f) (jumlah_rp f)],
         ledger_cache := None, cache_clears := Suc (cache_clears w), rerun_requested := True\<rparr>"
proof -
  obtain sh where a: "append_row (row_data f) (sheet w) = (sh, None)"
    using assms by (cases "append_row (row_data f) (sheet w)") (auto simp: saved_def)
  from assms have "submit f" "\<not> (jumlah_rp f = 0 \<and> gram_emas f = 0)" by (auto simp: saved_def)
  then show ?thesis using a by (simp add: submit_handler_saved)
qed

text \<open>
  C6.  \<open>load_data.clear()\<close> is called exactly when \<open>append_row\<close> was called and did not
  raise (\<open>saved\<close>).  After a saved draft the cache slot is empty, the success message is
  shown, and the next cached read calls the loader on the sheet as the append left it.
  When \<open>append_row\<close> raises \<open>e\<close>, the error message with \<open>e\<close> is shown, the cache slot
  and the rerun flag are unchanged, and \<open>append_row\<close> was called once: there is no retry.
\<close>
theorem cache_cleared_iff_saved:
  "(cache_clears (submit_handler append_row f w) = Suc (cache_clears w) \<longleftrightarrow> saved append_row f w) \<and>
   (cache_clears (submit_handler append_row f w) = cache_clears w \<longleftrightarrow> \<not> saved append_row f w) \<and>
   (saved append_row f w \<longrightarrow>
      ledger_cache (submit_handler append_row f w) = None \<and>
      sheet (submit_handler append_row f w) = fst (append_row (row_data f) (sheet w)) \<and>
      shown (submit_handler append_row f w) = shown w @ [Success_saved (transaction_type f) (jumlah_rp f)] \<and>
      (\<forall>loader. fst (cached_load_data loader (submit_handler append_row f w))
                   = loader (fst (append_row (row_data f) (sheet w))))) \<and>
   (\<forall>e. submit f \<and> \<not> (jumlah_rp f = 0 \<and> gram_emas f = 0) \<and>
        snd (append_row (row_data f) (sheet w)) = Some e \<longrightarrow>
      ledger_cache (submit_handler append_row f w) = ledger_cache w \<and>
      shown (submit_handler append_row f w) = shown w @ [Err_save e] \<and>
      store_calls (submit_handler append_row f w) = store_calls w @ [row_data f] \<and>
      rerun_requested (submit_handler append_row f w) = rerun_requested w)"
proof (intro conjI allI impI)
  show "cache_clears (submit_handler append_row f w) = Suc (cache_clears w) \<longleftrightarrow> saved append_row f w"
    using not_saved_keeps_cache [of append_row f w] saved_clears_cache [of append_row f w]
    by (cases "saved append_row f w") auto
  show "cache_clears (submit_handler append_row f w) = cache_clears w \<longleftrightarrow> \<not> saved append_row f w"
    using not_saved_keeps_cache [of append_row f w] saved_clears_cache [of append_row f w]
    by (cases "saved append_row f w") auto
next
  assume s: "saved append_row f w"
  note e = saved_clears_cache [OF s]
  show "ledger_cache (submit_handler append_row f w) = None" by (simp add: e)
  show "sheet (submit_handler append_row f w) = fst (append_row (row_data f) (sheet w))"
    by (simp add: e)
  show "shown (submit_handler append_row f w) = shown w @ [Success_saved (transaction_type f) (jumlah_rp f)]"
    by (simp add: e)
  show "fst (cached_load_data loader (submit_handler append_row f w))
          = loader (fst (append_row (row_data f) (sheet w)))" for loader
    by (simp add: e cached_load_data_def Let_def)
next
  fix e
  assume a: "submit f \<and> \<not> (jumlah_rp f = 0 \<and> gram_emas f = 0) \<and>
        snd (append_row (row_data f) (sheet w)) = Some e"
  then obtain sh where r: "append_row (row_data f) (sheet w) = (sh, Some e)"
    by (cases "append_row (row_data f) (sheet w)") auto
  from a have "submit f" "\<not> (jumlah_rp f = 0 \<and> gram_emas f = 0)" by auto
  then have h: "submit_handler append_row f w =
       w\<lparr>sheet := sh, store_calls := store_calls w @ [row_data f], shown := shown w @ [Err_save e]\<rparr>"
    using r by (simp add: submit_handler_failed)
  show "ledger_cache (submit_handler append_row f w) = ledger_cache w" by (simp add: h)
  show "shown (submit_handler append_row f w) = shown w @ [Err_save e]" by (simp add: h)
  show "store_calls (submit_handler append_row f w) = store_calls w @ [row_data f]" by (simp add: h)
  show "rerun_requested (submit_handler append_row f w) = rerun_requested w" by (simp add: h)
qed

theorem cache_cleared_iff_saved_witness:
  "saved append_ok (sample_form ''Pemasukan'' 1000 0) sample_world \<and>
   ledger_cache sample_world = Some empty_frame \<and>
   ledger_cache (submit_handler append_ok (sample_form ''Pemasukan'' 1000 0) sample_world) = None \<and>
   cache_clears (submit_handler append_ok (sample_form ''Pemasukan'' 1000 0) sample_world) = 1 \<and>
   submit (sample_form ''Pemasukan'' 1000 0) \<and>
   snd (append_fails (row_data (sample_form ''Pemasukan'' 1000 0)) (sheet sample_world)) = Some ''APIError'' \<and>
   \<not> saved append_fails (sample_form ''Pemasukan'' 1000 0) sample_world \<and>
   ledger_cache (submit_handler append_fails (sample_form ''Pemasukan'' 1000 0) sample_world)
     = Some empty_frame \<and>
   cache_clears (submit_handler append_fails (sample_form ''Pemasukan'' 1000 0) sample_world) = 0 \<and>
   shown (submit_handler append_fails (sample_form ''Pemasukan'' 1000 0) sample_world)
     = [Err_save ''APIError'']"
proof -
  let ?f = "sample_form ''Pemasukan'' 1000 0"
  have f: "submit ?f" "\<not> (jumlah_rp ?f = 0 \<and> gram_emas ?f = 0)" by (simp_all add: sample_form_def)
  have s: "saved append_ok ?f sample_world" using f by (simp add: saved_def append_ok_def)
  have n: "\<not> saved append_fails ?f sample_world" by (simp add: saved_def append_fails_def)
  have r: "snd (append_fails (row_data ?f) (sheet sample_world)) = Some ''APIError''"
    by (simp add: append_fails_def)
  have w: "ledger_cache sample_world = Some empty_frame" "cache_clears sample_world = 0"
    "shown sample_world = []"
    by (simp_all add: sample_world_def)
  from cache_cleared_iff_saved [of append_ok ?f sample_world] s w
  have a: "ledger_cache (submit_handler append_ok ?f sample_world) = None \<and>
           cache_clears (submit_handler append_ok ?f sample_world) = 1" by simp
  from cache_cleared_iff_saved [of append_fails ?f sample_world] n f r w
  have b: "ledger_cache (submit_handler append_fails ?f sample_world) = Some empty_frame \<and>
           cache_clears (submit_handler append_fails ?f sample_world) = 0 \<and>
           shown (submit_handler append_fails ?f sample_world) = [Err_save ''APIError'']" by simp
  from s n r w f a b show ?thesis by blast
qed

text \<open>
  C10.  The grams of a draft are \<open>0\<close> unless its type is \<open>Beli Emas\<close>, and every row that
  the handler passes to \<open>append_row\<close> carries the draft's type in its second cell and, in
  its fifth cell, grams that are not \<open>0\<close> only when that type is \<open>Beli Emas\<close>.
\<close>
theorem gram_only_with_beli_emas:
  "(transaction_type f \<noteq> ''Beli Emas'' \<longrightarrow> gram_emas f = 0) \<and>
   (gram_emas f \<noteq> 0 \<longrightarrow> transaction_type f = ''Beli Emas'') \<and>
   (\<forall>row. row \<in> set (store_calls (submit_handler append_row f w)) \<and> row \<notin> set (store_calls w) \<longrightarrow>
      (\<exists>d k a g. row = [Str d, Str (transaction_type f), Str k, Num a, Num g] \<and>
                 (g \<noteq> 0 \<longrightarrow> transaction_type f = ''Beli Emas'')))"
proof (intro conjI allI impI)
  show "gram_emas f = 0" if "transaction_type f \<noteq> ''Beli Emas''"
    using that by (simp add: gram_emas_def)
  show g: "transaction_type f = ''Beli Emas''" if "gram_emas f \<noteq> 0"
    using that by (simp add: gram_emas_def split: if_splits)
  fix row
  assume r: "row \<in> set (store_calls (submit_handler append_row f w)) \<and> row \<notin> set (store_calls w)"
  obtain sh res where a: "append_row (row_data f) (sheet w) = (sh, res)"
    by (cases "append_row (row_data f) (sheet w)")
  have "store_calls (submit_handler append_row f w) = store_calls w \<or>
        store_calls (submit_handler append_row f w) = store_calls w @ [row_data f]"
    using a by (cases res) (auto simp: submit_handler_def)
  with r have "row = row_data f" by auto
  then show "\<exists>d k a g. row = [Str d, Str (transaction_type f), Str k, Num a, Num g] \<and>
                 (g \<noteq> 0 \<longrightarrow> transaction_type f = ''Beli Emas'')"
    using g by (auto simp: row_data_def)
qed

theorem gram_only_with_beli_emas_witness:
  "transaction_type (sample_form ''Pemasukan'' 1000 7) \<noteq> ''Beli Emas'' \<and>
   gram_input (sample_form ''Pemasukan'' 1000 7) = 7 \<and>
   gram_emas (sample_form ''Pemasukan'' 1000 7) = 0 \<and>
   gram_emas (sample_form ''Beli Emas'' 1000 7) = 7 \<and>
   transaction_type (sample_form ''Beli Emas'' 1000 7) = ''Beli Emas''"
proof -
  have t: "transaction_type (sample_form ''Pemasukan'' 1000 7) \<noteq> ''Beli Emas''"
    by (simp add: sample_form_def)
  have i: "gram_input (sample_form ''Pemasukan'' 1000 7) = 7" by (simp add: sample_form_def)
  have g: "gram_emas (sample_form ''Beli Emas'' 1000 7) = 7"
    by (simp add: sample_form_def gram_emas_def)
  have g': "gram_emas (sample_form ''Beli Emas'' 1000 7) \<noteq> 0" by (simp add: g)
  from gram_only_with_beli_emas
         [where f = "sample_form ''Pemasukan'' 1000 7" and append_row = append_ok and w = sample_world] t
  have a: "gram_emas (sample_form ''Pemasukan'' 1000 7) = 0" by blast
  from gram_only_with_beli_emas
         [where f = "sample_form ''Beli Emas'' 1000 7" and append_row = append_ok and w = sample_world] g'
  have b: "transaction_type (sample_form ''Beli Emas'' 1000 7) = ''Beli Emas''" by blast
  from t i g a b show ?thesis by blast
qed

section \<open>Core metrics of a loaded ledger\<close>

lemma loaded_buckets:
  assumes "load_data pdate pnum fetched = (df, msgs)" and "\<not> df_empty df" and "r \<in> set (rows df)"
  shows "r ''Pemasukan'' = (if r ''Tipe Transaksi'' = Str ''Pemasukan'' then r ''Jumlah (Rp)'' else Num 0)"
    and "r ''Pengeluaran'' = (if r ''Tipe Transaksi'' = Str ''Pengeluaran Harian'' then r ''Jumlah (Rp)'' else Num 0)"
    and "r ''Investasi Saham'' = (if r ''Tipe Transaksi'' = Str ''Tabungan Saham'' then r ''Jumlah (Rp)'' else Num 0)"
proof -
  from loaded_row [OF assms] obtain r0 where r: "r = clean_row pdate pnum r0" ..
  show "r ''Pemasukan'' = (if r ''Tipe Transaksi'' = Str ''Pemasukan'' then r ''Jumlah (Rp)'' else Num 0)"
    unfolding r by (simp add: clean_row_buckets bucket_def)
  show "r ''Pengeluaran'' = (if r ''Tipe Transaksi'' = Str ''Pengeluaran Harian'' then r ''Jumlah (Rp)'' else Num 0)"
    unfolding r by (simp add: clean_row_buckets bucket_def)
  show "r ''Investasi Saham'' = (if r ''Tipe Transaksi'' = Str ''Tabungan Saham'' then r ''Jumlah (Rp)'' else Num 0)"
    unfolding r by (simp add: clean_row_buckets bucket_def)
qed

lemma loaded_bucket_columns:
  assumes "load_data pdate pnum fetched = (df, msgs)" and "\<not> df_empty df"
  shows "map (\<lambda>r. r ''Pemasukan'') (rows df) =
           map (\<lambda>r. if r ''Tipe Transaksi'' = Str ''Pemasukan'' then r ''Jumlah (Rp)'' else Num 0) (rows df)"
    and "map (\<lambda>r. r ''Pengeluaran'') (rows df) =
           map (\<lambda>r. if r ''Tipe Transaksi'' = Str ''Pengeluaran Harian'' then r ''Jumlah (Rp)'' else Num 0) (rows df)"
    and "map (\<lambda>r. r ''Investasi Saham'') (rows df) =
           map (\<lambda>r. if r ''Tipe Transaksi'' = Str ''Tabungan Saham'' then r ''Jumlah (Rp)'' else Num 0) (rows df)"
  using loaded_buckets [OF assms] by (simp_all cong: map_cong)

lemma core_metrics_None: "core_metrics np df = None \<longleftrightarrow> df_empty df"
  by (simp add: core_metrics_def Let_def)

lemma core_metrics_nonempty:
  assumes "\<not> df_empty df"
  shows "core_metrics np df =
     Some \<lparr>total_pemasukan = col_sum np ''Pemasukan'' df,
           total_pengeluaran = col_sum np ''Pengeluaran'' df,
           total_tabungan_saham = col_sum np ''Investasi Saham'' df,
           total_gram_emas = col_sum np ''Gram Emas'' df,
           saldo_cashflow = np_sub np (col_sum np ''Pemasukan'' df) (col_sum np ''Pengeluaran'' df),
           total_kekayaan =
             np_add np
               (np_add np (np_sub np (col_sum np ''Pemasukan'' df) (col_sum np ''Pengeluaran'' df))
                  (col_sum np ''Investasi Saham'' df))
               (np_times np (col_sum np ''Gram Emas'' df) 900000)\<rparr>"
  using assms by (simp add: core_metrics_def Let_def)

lemma exact_numpy_ops:
  "np_sum exact_numpy cells = sum_list (map num_of cells)"
  "np_cell exact_numpy v = num_of v"
  "np_sub exact_numpy x y = x - y"
  "np_add exact_numpy x y = x + y"
  "np_times exact_numpy x k = x * of_int k"
  by (simp_all add: exact_numpy_def)

lemma int64_numpy_ops:
  "np_sum int64_numpy cells = sum_list (map (\<lambda>v. word_of_int \<lfloor>num_of v\<rfloor>) cells)"
  "np_cell int64_numpy v = word_of_int \<lfloor>num_of v\<rfloor>"
  "np_sub int64_numpy x y = x - y"
  "np_add int64_numpy x y = x + y"
  "np_times int64_numpy x k = x * word_of_int k"
  by (simp_all add: int64_numpy_def)

lemma spec_total_buckets:
  "spec_total t rs =
     sum_list (map num_of (map (\<lambda>r. if r ''Tipe Transaksi'' = Str t then r ''Jumlah (Rp)'' else Num 0) rs))"
proof -
  have "(\<lambda>r. if r ''Tipe Transaksi'' = Str t then num_of (r ''Jumlah (Rp)'') else 0)
          = (\<lambda>r. num_of (if r ''Tipe Transaksi'' = Str t then r ''Jumlah (Rp)'' else Num 0))"
    by (auto simp: num_of_def)
  then show ?thesis by (simp add: spec_total_def sum_list_map_filter' o_def)
qed

lemma scenario_A_loaded:
  "load_data pdate pnum (Inr scenario_A) = (clean pdate pnum (DataFrame scenario_A), [])"
  unfolding scenario_A_def by (rule load_data_sample_row)

lemma scenario_A_not_empty: "\<not> df_empty (clean pdate pnum (DataFrame scenario_A))"
  unfolding scenario_A_def by (rule sample_frame_not_empty)

lemma scenario_A_rows:
  "rows (clean pdate pnum (DataFrame scenario_A))
     = [clean_row pdate pnum
          (frame_row (raw_row (Str ''2024-01-01'') (Str ''Pemasukan'') (Str ''Salary'')
             (Num 5000000) (Num 0)))]"
  by (simp add: scenario_A_def rows_clean rows_DataFrame)

lemma scenario_A_columns:
  "map (\<lambda>r. r ''Pemasukan'') (rows (clean pdate sample_pnum (DataFrame scenario_A))) = [Num 5000000]"
  "map (\<lambda>r. r ''Pengeluaran'') (rows (clean pdate sample_pnum (DataFrame scenario_A))) = [Num 0]"
  "map (\<lambda>r. r ''Investasi Saham'') (rows (clean pdate sample_pnum (DataFrame scenario_A))) = [Num 0]"
  "map (\<lambda>r. r ''Gram Emas'') (rows (clean pdate sample_pnum (DataFrame scenario_A))) = [Num 0]"
  by (simp_all add: scenario_A_rows clean_row_buckets bucket_def
        clean_row_fields frame_row_raw_row fillna0_to_numeric sample_pnum_def)

lemma scenario_A_exact:
  "core_metrics exact_numpy (fst (load_data pdate sample_pnum (Inr scenario_A)))
     = Some \<lparr>total_pemasukan = 5000000, total_pengeluaran = 0, total_tabungan_saham = 0,
             total_gram_emas = 0, saldo_cashflow = 5000000, total_kekayaan = 5000000\<rparr>"
  by (simp add: scenario_A_loaded core_metrics_nonempty [OF scenario_A_not_empty] col_sum_def
        scenario_A_columns exact_numpy_ops num_of_def)

lemma scenario_A_int64:
  "core_metrics int64_numpy (fst (load_data pdate sample_pnum (Inr scenario_A)))
     = Some \<lparr>total_pemasukan = 5000000, total_pengeluaran = 0, total_tabungan_saham = 0,
             total_gram_emas = 0, saldo_cashflow = 5000000, total_kekayaan = 5000000\<rparr>"
  by (simp add: scenario_A_loaded core_metrics_nonempty [OF scenario_A_not_empty] col_sum_def
        scenario_A_columns int64_numpy_ops num_of_def)

lemma scenario_B_loaded:
  "load_data pdate pnum (Inr scenario_B) = (empty_frame, [Err_column ''Gram Emas''])"
  by (simp add: load_data_Inr df_empty_def DataFrame_def scenario_B_def required_cols_def)

text \<open>
  C7, as stated, fails for the empty ledger.  The totals are computed under
  \<open>if not df.empty\<close> only: for the ledger loaded from a sheet without records, and for the
  one returned after a missing column (the sheet \<open>scenario_B\<close>), no total and no estimated
  wealth exist, where the formula would give 0.
\<close>

theorem core_metrics_empty_ledger_counterexample:
  "load_data sample_pdate sample_pnum (Inr []) = (empty_frame, []) \<and>
   core_metrics exact_numpy (fst (load_data sample_pdate sample_pnum (Inr []))) = None \<and>
   core_metrics exact_numpy (fst (load_data sample_pdate sample_pnum (Inr [])))
     \<noteq> Some \<lparr>total_pemasukan = 0, total_pengeluaran = 0, total_tabungan_saham = 0,
              total_gram_emas = 0, saldo_cashflow = 0, total_kekayaan = 0\<rparr> \<and>
   load_data sample_pdate sample_pnum (Inr scenario_B) = (empty_frame, [Err_column ''Gram Emas'']) \<and>
   core_metrics exact_numpy (fst (load_data sample_pdate sample_pnum (Inr scenario_B))) = None"
proof -
  have a: "load_data sample_pdate sample_pnum (Inr []) = (empty_frame, [])"
    by (simp add: load_data_Inr df_empty_def DataFrame_def empty_frame_def)
  have n: "core_metrics exact_numpy empty_frame = None"
    by (simp add: core_metrics_None df_empty_empty_frame)
  show ?thesis by (simp add: a n scenario_B_loaded)
qed

text \<open>
  C7, amended.  For every ledger that \<open>load_data\<close> returns, metrics are computed exactly
  when the ledger is not empty.  Then, in whatever arithmetic numpy computes,
  \<^item> total income, total expense and total stock savings are the \<open>sum\<close> of the column that
    holds the amount in the rows of type \<open>Pemasukan\<close>, \<open>Pengeluaran Harian\<close> and
    \<open>Tabungan Saham\<close> and 0 in the other rows, and the total of gold is the \<open>sum\<close> of the
    column \<open>Gram Emas\<close>;
  \<^item> the net cash flow is total income minus total expense, and the estimated wealth is
    (total income - total expense) + total stock savings + total grams * 900000.

  In exact arithmetic these are the totals of the specification: each total is the sum of
  the amounts of the rows of its type, and the estimated wealth is \<open>spec_wealth\<close>.
  The sheet \<open>scenario_A\<close>, one income row of 5000000 without gold, gives total income
  5000000, net cash flow 5000000 and estimated wealth 5000000, in exact arithmetic and in
  \<open>int64\<close> arithmetic.
\<close>

theorem total_kekayaan_formula:
  assumes "load_data pdate pnum fetched = (df, msgs)"
  shows
    "(core_metrics np df = None \<longleftrightarrow> df_empty df) \<and>
     (\<not> df_empty df \<longrightarrow>
        (\<exists>m. core_metrics np df = Some m \<and>
           total_pemasukan m =
             np_sum np (map (\<lambda>r. if r ''Tipe Transaksi'' = Str ''Pemasukan''
                                  then r ''Jumlah (Rp)'' else Num 0) (rows df)) \<and>
           total_pengeluaran m =
             np_sum np (map (\<lambda>r. if r ''Tipe Transaksi'' = Str ''Pengeluaran Harian''
                                  then r ''Jumlah (Rp)'' else Num 0) (rows df)) \<and>
           total_tabungan_saham m =
             np_sum np (map (\<lambda>r. if r ''Tipe Transaksi'' = Str ''Tabungan Saham''
                                  then r ''Jumlah (Rp)'' else Num 0) (rows df)) \<and>
           total_gram_emas m = np_sum np (map (\<lambda>r. r ''Gram Emas'') (rows df)) \<and>
           saldo_cashflow m = np_sub np (total_pemasukan m) (total_pengeluaran m) \<and>
           total_kekayaan m =
             np_add np
               (np_add np (np_sub np (total_pemasukan m) (total_pengeluaran m))
                  (total_tabungan_saham m))
               (np_times np (total_gram_emas m) 900000))) \<and>
     (\<not> df_empty df \<longrightarrow>
        (\<exists>m. core_metrics exact_numpy df = Some m \<and>
           total_pemasukan m = spec_total ''Pemasukan'' (rows df) \<and>
           total_pengeluaran m = spec_total ''Pengeluaran Harian'' (rows df) \<and>
           total_tabungan_saham m = spec_total ''Tabungan Saham'' (rows df) \<and>
           total_gram_emas m = spec_grams (rows df) \<and>
           saldo_cashflow m =
             spec_total ''Pemasukan'' (rows df) - spec_total ''Pengeluaran Harian'' (rows df) \<and>
           total_kekayaan m = spec_wealth (rows df))) \<and>
     (\<forall>pd. core_metrics exact_numpy (fst (load_data pd sample_pnum (Inr scenario_A)))
        = Some \<lparr>total_pemasukan = 5000000, total_pengeluaran = 0, total_tabungan_saham = 0,
                total_gram_emas = 0, saldo_cashflow = 5000000, total_kekayaan = 5000000\<rparr>) \<and>
     (\<forall>pd. core_metrics int64_numpy (fst (load_data pd sample_pnum (Inr scenario_A)))
        = Some \<lparr>total_pemasukan = 5000000, total_pengeluaran = 0, total_tabungan_saham = 0,
                total_gram_emas = 0, saldo_cashflow = 5000000, total_kekayaan = 5000000\<rparr>)"
proof (intro conjI impI allI)
  show "core_metrics np df = None \<longleftrightarrow> df_empty df" by (rule core_metrics_None)
next
  assume ne: "\<not> df_empty df"
  note cols = loaded_bucket_columns [OF assms ne]
  show "\<exists>m. core_metrics np df = Some m \<and>
           total_pemasukan m =
             np_sum np (map (\<lambda>r. if r ''Tipe Transaksi'' = Str ''Pemasukan''
                                  then r ''Jumlah (Rp)'' else Num 0) (rows df)) \<and>
           total_pengeluaran m =
             np_sum np (map (\<lambda>r. if r ''Tipe Transaksi'' = Str ''Pengeluaran Harian''
                                  then r ''Jumlah (Rp)'' else Num 0) (rows df)) \<and>
           total_tabungan_saham m =
             np_sum np (map (\<lambda>r. if r ''Tipe Transaksi'' = Str ''Tabungan Saham''
                                  then r ''Jumlah (Rp)'' else Num 0) (rows df)) \<and>
           total_gram_emas m = np_sum np (map (\<lambda>r. r ''Gram Emas'') (rows df)) \<and>
           saldo_cashflow m = np_sub np (total_pemasukan m) (total_pengeluaran m) \<and>
           total_kekayaan m =
             np_add np
               (np_add np (np_sub np (total_pemasukan m) (total_pengeluaran m))
                  (total_tabungan_saham m))
               (np_times np (total_gram_emas m) 900000)"
    by (simp add: core_metrics_nonempty [OF ne] col_sum_def cols)
next
  assume ne: "\<not> df_empty df"
  note cols = loaded_bucket_columns [OF assms ne]
  show "\<exists>m. core_metrics exact_numpy df = Some m \<and>
           total_pemasukan m = spec_total ''Pemasukan'' (rows df) \<and>
           total_pengeluaran m = spec_total ''Pengeluaran Harian'' (rows df) \<and>
           total_tabungan_saham m = spec_total ''Tabungan Saham'' (rows df) \<and>
           total_gram_emas m = spec_grams (rows df) \<and>
           saldo_cashflow m =
             spec_total ''Pemasukan'' (rows df) - spec_total ''Pengeluaran Harian'' (rows df) \<and>
           total_kekayaan m = spec_wealth (rows df)"
    by (simp add: core_metrics_nonempty [OF ne] col_sum_def cols exact_numpy_ops
          spec_total_buckets spec_wealth_def spec_grams_def o_def)
next
  fix pd
  show "core_metrics exact_numpy (fst (load_data pd sample_pnum (Inr scenario_A)))
        = Some \<lparr>total_pemasukan = 5000000, total_pengeluaran = 0, total_tabungan_saham = 0,
                total_gram_emas = 0, saldo_cashflow = 5000000, total_kekayaan = 5000000\<rparr>"
    by (rule scenario_A_exact)
next
  fix pd
  show "core_metrics int64_numpy (fst (load_data pd sample_pnum (Inr scenario_A)))
        = Some \<lparr>total_pemasukan = 5000000, total_pengeluaran = 0, total_tabungan_saham = 0,
                total_gram_emas = 0, saldo_cashflow = 5000000, total_kekayaan = 5000000\<rparr>"
    by (rule scenario_A_int64)
qed

theorem total_kekayaan_formula_witness:
  "load_data sample_pdate sample_pnum (Inr scenario_A)
     = (clean sample_pdate sample_pnum (DataFrame scenario_A), []) \<and>
   \<not> df_empty (clean sample_pdate sample_pnum (DataFrame scenario_A)) \<and>
   core_metrics exact_numpy (clean sample_pdate sample_pnum (DataFrame scenario_A)) \<noteq> None \<and>
   spec_wealth (rows (clean sample_pdate sample_pnum (DataFrame scenario_A))) = 5000000 \<and>
   (\<exists>m. core_metrics exact_numpy (clean sample_pdate sample_pnum (DataFrame scenario_A)) = Some m \<and>
        total_pemasukan m = 5000000 \<and> saldo_cashflow m = 5000000 \<and> total_kekayaan m = 5000000)"
proof -
  let ?df = "clean sample_pdate sample_pnum (DataFrame scenario_A)"
  have l: "load_data sample_pdate sample_pnum (Inr scenario_A) = (?df, [])"
    by (rule scenario_A_loaded)
  have ne: "\<not> df_empty ?df" by (rule scenario_A_not_empty)
  have "map (\<lambda>r. r ''Jumlah (Rp)'') (rows ?df) = [Num 5000000]"
    by (simp add: scenario_A_rows clean_row_fields frame_row_raw_row fillna0_to_numeric sample_pnum_def)
  have t: "spec_total ''Pemasukan'' (rows ?df) = 5000000"
          "spec_total ''Pengeluaran Harian'' (rows ?df) = 0"
          "spec_total ''Tabungan Saham'' (rows ?df) = 0"
          "spec_grams (rows ?df) = 0"
    by (simp_all add: spec_total_def spec_grams_def scenario_A_rows clean_row_fields frame_row_raw_row
          fillna0_to_numeric sample_pnum_def num_of_def)
  then have w: "spec_wealth (rows ?df) = 5000000" by (simp add: spec_wealth_def)
  from total_kekayaan_formula [OF l, of exact_numpy] ne
  have n: "core_metrics exact_numpy ?df \<noteq> None"
    and "\<exists>m. core_metrics exact_numpy ?df = Some m \<and>
           total_pemasukan m = spec_total ''Pemasukan'' (rows ?df) \<and>
           saldo_cashflow m =
             spec_total ''Pemasukan'' (rows ?df) - spec_total ''Pengeluaran Harian'' (rows ?df) \<and>
           total_kekayaan m = spec_wealth (rows ?df)"
    by blast+
  then have "\<exists>m. core_metrics exact_numpy ?df = Some m \<and>
        total_pemasukan m = 5000000 \<and> saldo_cashflow m = 5000000 \<and> total_kekayaan m = 5000000"
    by (simp add: t w)
  with l ne n w show ?thesis by blast
qed

section \<open>The cumulative trend of a loaded ledger\<close>

subsection \<open>Running sums\<close>










subsection \<open>Sorted frames\<close>












subsection \<open>The trend of a loaded ledger\<close>



























end
